theory Spec2Isabelle
  imports Main "HOL-Library.Word"
begin

unbundle bit_operations_syntax

section \<open>Primitive types and errors\<close>

text \<open>
  \<^verbatim>\<open>fairport/util/util.h\<close> takes its integer types from \<^verbatim>\<open>primatives.h\<close>:
  \<^verbatim>\<open>byte\<close> is an unsigned 8-bit value and \<^verbatim>\<open>ulonglong\<close> an unsigned 64-bit
  value. \<^verbatim>\<open>time_t\<close> is the C library's signed count of seconds; it is taken
  64 bits wide here (two's complement, read with \<open>sint\<close>), as the 64-bit
  arithmetic of the conversion helpers presupposes. A conversion between
  \<^verbatim>\<open>ulonglong\<close> and \<^verbatim>\<open>time_t\<close> keeps the bit pattern, so both are \<open>64 word\<close>.
  The width of \<^verbatim>\<open>ulong\<close> is left open: \<open>test_bit\<close> takes a word of any length.
\<close>

type_synonym byte = "8 word"
type_synonym ulonglong = "64 word"
type_synonym time_t = "64 word"

text \<open>
  An IEEE double. The two helpers that mention it neither inspect nor produce
  a value of the type, so it stays opaque.
\<close>

typedecl double

text \<open>
  The exceptions thrown in \<^verbatim>\<open>util.h\<close>, each with the message it is constructed
  with: \<^verbatim>\<open>std::runtime_error\<close>, \<^verbatim>\<open>std::out_of_range\<close> and the library's own
  \<^verbatim>\<open>not_implemented\<close>. A throwing function returns \<open>Inl\<close> of the exception.
\<close>

datatype error = runtime_error string | out_of_range string | not_implemented string

section \<open>Time conversion helpers\<close>

text \<open>
  \<^verbatim>\<open>
  inline time_t fairport::filetime_to_time_t(ulonglong filetime)
  {
      ulonglong jan1970 = 116444736000000000ULL;
      return (filetime - jan1970) / 10000000;
  }
  \<close>
  The subtraction and the division are unsigned 64-bit operations.
\<close>

definition filetime_to_time_t :: "ulonglong \<Rightarrow> time_t" where
  "filetime_to_time_t filetime =
     (let jan1970 = (116444736000000000 :: ulonglong)
      in (filetime - jan1970) div 10000000)"

text \<open>
  \<^verbatim>\<open>
  inline fairport::ulonglong fairport::time_t_to_filetime(time_t time)
  {
      ulonglong jan1970 = 116444736000000000ULL;
      return (time * 10000000) + jan1970;
  }
  \<close>
  The product is formed in \<^verbatim>\<open>time_t\<close> and then converted to \<^verbatim>\<open>ulonglong\<close>
  for the unsigned addition; on 64-bit two's complement values both steps are
  the wrapping word operations.
\<close>

definition time_t_to_filetime :: "time_t \<Rightarrow> ulonglong" where
  "time_t_to_filetime time =
     (let jan1970 = (116444736000000000 :: ulonglong)
      in (time * 10000000) + jan1970)"

text \<open>
  \<^verbatim>\<open>
  inline time_t fairport::vt_date_to_time_t(double)
  {
      throw not_implemented("vt_date_to_time_t");
  }

  inline double fairport::time_t_to_vt_date(time_t)
  {
      throw not_implemented("vt_date_to_time_t");
  }
  \<close>
  Both bodies consist of the throw alone; the second one carries the first
  one's name in its message.
\<close>

definition vt_date_to_time_t :: "double \<Rightarrow> error + time_t" where
  "vt_date_to_time_t vt_time = Inl (not_implemented ''vt_date_to_time_t'')"

definition time_t_to_vt_date :: "time_t \<Rightarrow> error + double" where
  "time_t_to_vt_date time = Inl (not_implemented ''vt_date_to_time_t'')"

section \<open>Bit test\<close>

text \<open>
  \<^verbatim>\<open>
  inline bool fairport::test_bit(const byte* pbytes, ulong bit)
  {
      return (*(pbytes + (bit >> 3)) & (0x80 >> (bit & 7))) != 0;
  }
  \<close>
  The buffer is a list of bytes; dereferencing the pointer past its end is
  undefined in C++ and is \<open>None\<close> here. The byte and the mask \<^verbatim>\<open>0x80 >> k\<close> are
  promoted to \<^verbatim>\<open>int\<close> before the bitwise and; both lie between 0 and 255, so
  the mathematical integers compute the same value.
\<close>

definition test_bit :: "byte list \<Rightarrow> 'w::len word \<Rightarrow> bool option" where
  "test_bit pbytes bitno =
     (let i = unat (drop_bit 3 bitno)
      in if i < length pbytes
         then Some ((uint (pbytes ! i) AND drop_bit (unat (bitno AND 7)) (128 :: int)) \<noteq> 0)
         else None)"

section \<open>The C stream under the file class\<close>

text \<open>
  \<^verbatim>\<open>file\<close> wraps a \<^verbatim>\<open>FILE*\<close> of the C library. The stream of a regular file
  opened in binary mode is the file's bytes, the file position indicator,
  whether the mode it was opened with allows output, and the largest offset
  the file system under it lets a stream seek to (\<open>2^44 - 4096\<close> on ext4 with
  4 KiB blocks, \<open>2^63 - 1\<close> on others), which differs from host to host and is
  never smaller than the file.
\<close>

record FILE =
  contents :: "byte list"
  pos :: nat
  writable :: bool
  seek_limit :: nat

text \<open>
  A file system: the files by name, and the largest file offset it supports.
\<close>

record filesystem =
  files :: "string \<rightharpoonup> byte list"
  max_file_offset :: nat

text \<open>
  \<^verbatim>\<open>fopen\<close> with one of the \<^verbatim>\<open>r\<close> modes: a null pointer (\<open>None\<close>) when the
  file does not exist, otherwise a stream positioned at the start; only a mode
  with \<^verbatim>\<open>+\<close> allows output.
\<close>

definition fopen :: "filesystem \<Rightarrow> string \<Rightarrow> string \<Rightarrow> FILE option" where
  "fopen fs path mode =
     (case files fs path of
        None \<Rightarrow> None
      | Some bytes \<Rightarrow>
          Some \<lparr>contents = bytes, pos = 0, writable = (CHR ''+'' \<in> set mode),
                seek_limit = max_file_offset fs\<rparr>)"

text \<open>
  \<^verbatim>\<open>fseek(stream, off, SEEK_SET)\<close> and \<^verbatim>\<open>_fseeki64(stream, off, SEEK_SET)\<close>,
  with the signed offset as a mathematical integer: a negative offset and an
  offset beyond the largest one the file system supports fail (nonzero
  result, position unchanged); any other offset, also one past the end of
  the file, becomes the new position and the result is 0.
\<close>

definition fseek_set :: "FILE \<Rightarrow> int \<Rightarrow> int \<times> FILE" where
  "fseek_set stream off =
     (if off < 0 \<or> int (seek_limit stream) < off then (- 1, stream)
      else (0, stream\<lparr>pos := nat off\<rparr>))"

text \<open>
  \<^verbatim>\<open>fread(buf, 1, n, stream)\<close>: copies the bytes from the position up to \<open>n\<close>
  of them, or up to the end of the file, to the front of the buffer,
  advances the position by their number and returns that number.
\<close>

definition fread :: "byte list \<Rightarrow> nat \<Rightarrow> FILE \<Rightarrow> nat \<times> byte list \<times> FILE" where
  "fread buf n stream =
     (let got = take n (drop (pos stream) (contents stream))
      in (length got, got @ drop (length got) buf,
          stream\<lparr>pos := pos stream + length got\<rparr>))"

text \<open>
  \<^verbatim>\<open>fwrite(buf, 1, n, stream)\<close>: on a stream that was not opened for output
  nothing is written and the result is 0; otherwise the \<open>n\<close> bytes replace
  the file's bytes from the position on (the file grows as needed, a gap is
  filled with zero bytes) and the result is \<open>n\<close>. The class never holds a
  stream opened for output, so a file growing up to the file system's limit
  is not followed further.
\<close>

definition fwrite :: "byte list \<Rightarrow> nat \<Rightarrow> FILE \<Rightarrow> nat \<times> FILE" where
  "fwrite buf n stream =
     (if n = 0 \<or> \<not> writable stream then (0, stream)
      else
        (let data = take n buf;
             padded = contents stream @ replicate (pos stream - length (contents stream)) 0
         in (length data,
             stream\<lparr>contents := take (pos stream) padded @ data
                                   @ drop (pos stream + length data) padded,
                    pos := pos stream + length data\<rparr>)))"

section \<open>The file class\<close>

text \<open>
  The class keeps the name it was opened with and the stream.
\<close>

record fairport_file =
  m_filename :: string
  m_pfile :: FILE

text \<open>
  \<^verbatim>\<open>
  inline fairport::file::file(const std::wstring& filename)
  : m_filename(filename)
  {
      const char* mode = "rb";
  #ifdef _MSC_VER
      errno_t err = fopen_s(&m_pfile, ..., mode);
      if(err != 0)
          m_pfile = NULL;
  #else
      m_pfile = fopen(..., mode);
  #endif
      if(m_pfile == NULL)
          throw std::runtime_error("fopen failed");
  }
  \<close>
  Both branches open the file with mode \<^verbatim>\<open>"rb"\<close> and leave a null pointer on
  failure.
\<close>

definition file_ctor :: "filesystem \<Rightarrow> string \<Rightarrow> error + fairport_file" where
  "file_ctor fs filename =
     (case fopen fs filename ''rb'' of
        None \<Rightarrow> Inl (runtime_error ''fopen failed'')
      | Some p \<Rightarrow> Inr \<lparr>m_filename = filename, m_pfile = p\<rparr>)"

text \<open>
  The seek is the one place where the build matters:
  \<^verbatim>\<open>
  #ifdef _MSC_VER
      if(_fseeki64(m_pfile, offset, SEEK_SET) != 0)
  #else
      if(fseek(m_pfile, offset, SEEK_SET) != 0)
  #endif
  \<close>
  \<^verbatim>\<open>_fseeki64\<close> takes a signed 64-bit offset, \<^verbatim>\<open>fseek\<close> a \<^verbatim>\<open>long\<close>, which is
  64 bits wide on some targets and 32 bits wide on others. The \<^verbatim>\<open>ulonglong\<close>
  argument is converted to the parameter's type: the low bits are kept and
  read as two's complement.
\<close>

datatype long_width = Long32 | Long64

datatype compiler = MSC_VER | Other long_width

fun seek_offset :: "compiler \<Rightarrow> ulonglong \<Rightarrow> int" where
  "seek_offset MSC_VER offset = sint offset"
| "seek_offset (Other Long64) offset = sint offset"
| "seek_offset (Other Long32) offset = sint (ucast offset :: 32 word)"

text \<open>
  \<^verbatim>\<open>
  inline size_t fairport::file::read(std::vector<byte>& buffer, ulonglong offset) const
  {
      if(<seek>(m_pfile, offset, SEEK_SET) != 0)
      {
          throw std::out_of_range("fseek failed");
      }

      size_t read = fread(&buffer[0], 1, buffer.size(), m_pfile);

      if(read != buffer.size())
          throw std::out_of_range("fread failed");

      return read;
  }
  \<close>
  The result is the returned count or the exception, together with the buffer
  and the object as the call leaves them. For an empty buffer the expression
  \<^verbatim>\<open>&buffer[0]\<close> is undefined in C++; a build without checked iterators only
  passes the pointer on and \<^verbatim>\<open>fread\<close> is asked for no bytes, and that is what
  the definition follows. The stream pointer
  is the one the constructor stored; an object that has been moved from holds
  a null pointer and is not covered.
\<close>

definition file_read ::
  "compiler \<Rightarrow> fairport_file \<Rightarrow> byte list \<Rightarrow> ulonglong
     \<Rightarrow> (error + nat) \<times> byte list \<times> fairport_file" where
  "file_read c this buffer offset =
     (case fseek_set (m_pfile this) (seek_offset c offset) of
        (rc, s1) \<Rightarrow>
          if rc \<noteq> 0
          then (Inl (out_of_range ''fseek failed''), buffer, this\<lparr>m_pfile := s1\<rparr>)
          else
            (case fread buffer (length buffer) s1 of
               (rd, buffer', s2) \<Rightarrow>
                 if rd \<noteq> length buffer
                 then (Inl (out_of_range ''fread failed''), buffer', this\<lparr>m_pfile := s2\<rparr>)
                 else (Inr rd, buffer', this\<lparr>m_pfile := s2\<rparr>)))"

text \<open>
  \<^verbatim>\<open>
  inline size_t fairport::file::write(const std::vector<byte>& buffer, ulonglong offset)
  {
      if(<seek>(m_pfile, offset, SEEK_SET) != 0)
      {
          throw std::out_of_range("fseek failed");
      }

      size_t write = fwrite(&buffer[0], 1, buffer.size(), m_pfile);

      if(write != buffer.size())
          throw std::out_of_range("fwrite failed");

      return write;
  }
  \<close>
\<close>

definition file_write ::
  "compiler \<Rightarrow> fairport_file \<Rightarrow> byte list \<Rightarrow> ulonglong
     \<Rightarrow> (error + nat) \<times> fairport_file" where
  "file_write c this buffer offset =
     (case fseek_set (m_pfile this) (seek_offset c offset) of
        (rc, s1) \<Rightarrow>
          if rc \<noteq> 0
          then (Inl (out_of_range ''fseek failed''), this\<lparr>m_pfile := s1\<rparr>)
          else
            (case fwrite buffer (length buffer) s1 of
               (wr, s2) \<Rightarrow>
                 if wr \<noteq> length buffer
                 then (Inl (out_of_range ''fwrite failed''), this\<lparr>m_pfile := s2\<rparr>)
                 else (Inr wr, this\<lparr>m_pfile := s2\<rparr>)))"

section \<open>Arithmetic of the time conversion\<close>

lemma uint_filetime_to_time_t:
  "uint (filetime_to_time_t ft) =
     ((uint ft - 116444736000000000) mod 2 ^ 64) div 10000000"
  by (simp add: filetime_to_time_t_def uint_div uint_word_ariths)

lemma filetime_to_time_t_small:
  "uint (filetime_to_time_t ft) < 2 ^ 63"
proof -
  have "(uint ft - 116444736000000000) mod 2 ^ 64 < (2 ^ 64 :: int)"
    by simp
  then have "((uint ft - 116444736000000000) mod 2 ^ 64) div 10000000 < (2 ^ 63 :: int)"
    by simp
  then show ?thesis
    by (simp only: uint_filetime_to_time_t)
qed

lemma sint_eq_uint_small:
  fixes w :: "64 word"
  assumes "uint w < 2 ^ 63"
  shows "sint w = uint w"
proof -
  have "- (2 ^ 63) \<le> uint w"
    by (rule order_trans [of _ 0]) simp_all
  with assms show ?thesis
    by (simp add: sint_uint signed_take_bit_int_eq_self)
qed

lemma uint_eq_sint_nonneg:
  fixes w :: "64 word"
  assumes "0 \<le> sint w"
  shows "uint w = sint w"
proof -
  have "sint w < 2 ^ 64"
    using sint_lt [of w] by simp
  with assms show ?thesis
    by (simp add: uint_sint [of w] take_bit_eq_mod)
qed

lemma sint_nonneg_iff_64:
  fixes w :: "64 word"
  shows "0 \<le> sint w \<longleftrightarrow> uint w < 2 ^ 63"
proof
  assume "0 \<le> sint w"
  then have "uint w = sint w"
    by (rule uint_eq_sint_nonneg)
  then show "uint w < 2 ^ 63"
    using sint_lt [of w] by simp
next
  assume "uint w < 2 ^ 63"
  then have "sint w = uint w"
    by (rule sint_eq_uint_small)
  then show "0 \<le> sint w"
    by simp
qed

lemma sint_filetime_to_time_t:
  "sint (filetime_to_time_t ft) =
     ((uint ft - 116444736000000000) mod 2 ^ 64) div 10000000"
  using sint_eq_uint_small [OF filetime_to_time_t_small, of ft]
  by (simp only: uint_filetime_to_time_t)

lemma uint_time_t_to_filetime:
  "uint (time_t_to_filetime t) = (sint t * 10000000 + 116444736000000000) mod 2 ^ 64"
proof -
  have "uint (time_t_to_filetime t) = (uint t * 10000000 + 116444736000000000) mod 2 ^ 64"
    by (simp add: time_t_to_filetime_def uint_word_ariths mod_simps)
  also have "\<dots> = ((uint t * 10000000) mod 2 ^ 64 + 116444736000000000) mod 2 ^ 64"
    by (simp only: mod_add_left_eq)
  also have "(uint t * 10000000) mod 2 ^ 64 = (sint t * 10000000) mod 2 ^ 64"
  proof -
    have u: "uint t = sint t mod 2 ^ 64"
      by (simp add: uint_sint [of t] take_bit_eq_mod)
    show ?thesis
      unfolding u by (rule mod_mult_left_eq)
  qed
  also have "((sint t * 10000000) mod 2 ^ 64 + 116444736000000000) mod 2 ^ 64
      = (sint t * 10000000 + 116444736000000000) mod 2 ^ 64"
    by (simp only: mod_add_left_eq)
  finally show ?thesis .
qed

lemma roundtrip_word:
  assumes "uint t * 10000000 < 2 ^ 64"
  shows "filetime_to_time_t (time_t_to_filetime t) = t"
proof -
  have "uint (filetime_to_time_t (time_t_to_filetime t)) = uint t"
    using assms
    by (simp add: filetime_to_time_t_def time_t_to_filetime_def uint_div uint_word_ariths
        mod_simps)
  then show ?thesis
    by (simp only: word_uint_eq_iff)
qed

text \<open>
  C2. A Unix time \<open>t \<ge> 0\<close> whose product with \<open>10^7\<close> stays below \<open>2^64\<close>
  (which includes every \<open>t\<close> whose signed product does not overflow) is
  reproduced exactly by converting it to a filetime and back. The other
  direction loses the ticks below one second: the filetime one tick after the
  Unix epoch comes back as the epoch itself.
\<close>

theorem time_t_roundtrip:
  assumes "0 \<le> sint t" and "sint t * 10000000 < 2 ^ 64"
  shows "filetime_to_time_t (time_t_to_filetime t) = t \<and>
         time_t_to_filetime (filetime_to_time_t 116444736000000001) \<noteq> 116444736000000001"
proof
  from assms have "uint t * 10000000 < 2 ^ 64"
    by (simp only: uint_eq_sint_nonneg)
  then show "filetime_to_time_t (time_t_to_filetime t) = t"
    by (rule roundtrip_word)
next
  show "time_t_to_filetime (filetime_to_time_t 116444736000000001) \<noteq> 116444736000000001"
    by (simp add: filetime_to_time_t_def time_t_to_filetime_def)
qed

theorem time_t_roundtrip_witness:
  "0 \<le> sint (1262304000 :: time_t) \<and> sint (1262304000 :: time_t) * 10000000 < 2 ^ 64 \<and>
   time_t_to_filetime 1262304000 = 129067776000000000 \<and>
   filetime_to_time_t (time_t_to_filetime 1262304000) = 1262304000"
  using time_t_roundtrip [of 1262304000]
  by (simp add: time_t_to_filetime_def)

text \<open>
  C5, as stated, fails for \<open>time_t_to_filetime\<close>: the result is a 64-bit
  unsigned value, and for \<open>t = -11644473601\<close> (one second before the filetime
  epoch of 1601) the exact value \<open>t * 10^7 + 116444736000000000\<close> is
  \<open>-10^7\<close>, while the function returns \<open>2^64 - 10^7\<close>.
\<close>

theorem time_t_to_filetime_not_exact:
  "uint (time_t_to_filetime (- 11644473601))
     \<noteq> sint (- 11644473601 :: time_t) * 10000000 + 116444736000000000 \<and>
   uint (time_t_to_filetime (- 11644473601)) = 18446744073699551616 \<and>
   sint (- 11644473601 :: time_t) * 10000000 + 116444736000000000 = - 10000000"
  by (simp add: time_t_to_filetime_def)

text \<open>
  C5, amended. For every filetime \<open>ft \<ge> 116444736000000000\<close>,
  \<open>filetime_to_time_t ft\<close> is \<open>(ft - 116444736000000000) div 10^7\<close> (both
  operands are non-negative, so the quotient is the truncated one); and for
  every Unix time \<open>t\<close> whose exact value \<open>t * 10^7 + 116444736000000000\<close>
  lies in \<open>0 .. 2^64 - 1\<close>, \<open>time_t_to_filetime t\<close> is that value.
\<close>

theorem time_conversion_exact_in_range:
  "(116444736000000000 \<le> uint ft \<longrightarrow>
      sint (filetime_to_time_t ft) = (uint ft - 116444736000000000) div 10000000) \<and>
   (0 \<le> sint t * 10000000 + 116444736000000000 \<and>
    sint t * 10000000 + 116444736000000000 < 2 ^ 64 \<longrightarrow>
      uint (time_t_to_filetime t) = sint t * 10000000 + 116444736000000000)"
proof (intro conjI impI)
  assume "116444736000000000 \<le> uint ft"
  then have "0 \<le> uint ft - 116444736000000000"
    by simp
  moreover have "uint ft - 116444736000000000 < 2 ^ 64"
    using uint_lt2p [of ft] by simp
  ultimately have "(uint ft - 116444736000000000) mod 2 ^ 64 = uint ft - 116444736000000000"
    by (rule mod_pos_pos_trivial)
  then show "sint (filetime_to_time_t ft) = (uint ft - 116444736000000000) div 10000000"
    by (simp only: sint_filetime_to_time_t)
next
  assume "0 \<le> sint t * 10000000 + 116444736000000000 \<and>
    sint t * 10000000 + 116444736000000000 < 2 ^ 64"
  then have "(sint t * 10000000 + 116444736000000000) mod 2 ^ 64
      = sint t * 10000000 + 116444736000000000"
    by (intro mod_pos_pos_trivial) simp_all
  then show "uint (time_t_to_filetime t) = sint t * 10000000 + 116444736000000000"
    by (simp only: uint_time_t_to_filetime)
qed

theorem time_conversion_exact_in_range_witness:
  "116444736000000000 \<le> uint (116444736025000000 :: ulonglong) \<and>
   sint (filetime_to_time_t 116444736025000000) = 2 \<and>
   0 \<le> sint (- 1 :: time_t) * 10000000 + 116444736000000000 \<and>
   sint (- 1 :: time_t) * 10000000 + 116444736000000000 < 2 ^ 64 \<and>
   uint (time_t_to_filetime (- 1)) = 116444735990000000"
  using time_conversion_exact_in_range [of 116444736025000000 "- 1"]
  by simp

text \<open>
  C10. For a filetime before the Unix epoch the unsigned subtraction wraps:
  the result, read as a signed \<^verbatim>\<open>time_t\<close>, is
  \<open>((ft - 116444736000000000) mod 2^64) div 10^7\<close>, which is at least
  \<open>1833029933770\<close> and so never a negative number of seconds.
\<close>

theorem filetime_before_epoch_wraps:
  assumes "uint ft < 116444736000000000"
  shows "sint (filetime_to_time_t ft) =
           ((uint ft - 116444736000000000) mod 2 ^ 64) div 10000000 \<and>
         1833029933770 \<le> sint (filetime_to_time_t ft)"
proof -
  have "(uint ft - 116444736000000000) mod 2 ^ 64
      = (uint ft - 116444736000000000 + 2 ^ 64) mod 2 ^ 64"
    by (simp only: mod_add_self2)
  also have "\<dots> = uint ft - 116444736000000000 + 2 ^ 64"
    using assms uint_ge_0 [of ft] by (intro mod_pos_pos_trivial) simp_all
  finally have "(uint ft - 116444736000000000) mod 2 ^ 64
      = uint ft - 116444736000000000 + 2 ^ 64" .
  then have "18330299337709551616 \<le> (uint ft - 116444736000000000) mod 2 ^ 64"
    by simp
  then have "18330299337709551616 div 10000000
      \<le> ((uint ft - 116444736000000000) mod 2 ^ 64) div (10000000 :: int)"
    by (rule zdiv_mono1) simp
  then show ?thesis
    by (simp add: sint_filetime_to_time_t)
qed

theorem filetime_before_epoch_wraps_witness:
  "uint (116444735990000000 :: ulonglong) < 116444736000000000 \<and>
   sint (filetime_to_time_t 116444735990000000) = 1844674407369 \<and>
   sint (filetime_to_time_t 116444735990000000) \<noteq> - 1"
  using filetime_before_epoch_wraps [of 116444735990000000]
  by simp

text \<open>
  C8. Both VT_DATE helpers throw \<^verbatim>\<open>not_implemented\<close> for every argument and
  never return a value.
\<close>

theorem vt_date_helpers_not_implemented:
  "vt_date_to_time_t vt_time = Inl (not_implemented ''vt_date_to_time_t'') \<and>
   time_t_to_vt_date time = Inl (not_implemented ''vt_date_to_time_t'') \<and>
   (\<nexists>r. vt_date_to_time_t vt_time = Inr r) \<and> (\<nexists>r. time_t_to_vt_date time = Inr r)"
  by (simp add: vt_date_to_time_t_def time_t_to_vt_date_def)

section \<open>The bit test\<close>

lemma and_7_unat: "unat (w AND 7) = unat w mod 8" for w :: "'w::len word"
proof -
  have "(7 :: 'w word) = mask 3"
    by (simp add: mask_numeral)
  then have "w AND 7 = take_bit 3 w"
    by (simp only: take_bit_eq_mask)
  moreover have "unat (take_bit 3 w) = take_bit 3 (unat w)"
    by (rule unsigned_take_bit_eq)
  moreover have "take_bit 3 (unat w) = unat w mod 2 ^ 3"
    by (rule take_bit_eq_mod)
  ultimately show ?thesis
    by simp
qed

lemma shift_3_unat: "unat (drop_bit 3 w) = unat w div 8" for w :: "'w::len word"
proof -
  have "unat (drop_bit 3 w) = drop_bit 3 (unat w)"
    by (rule unat_drop_bit_eq)
  also have "\<dots> = unat w div 2 ^ 3"
    by (rule drop_bit_eq_div)
  finally show ?thesis
    by simp
qed

lemma mask_selects_bit:
  fixes b :: byte
  assumes "k < 8"
  shows "((uint b AND drop_bit k (128 :: int)) \<noteq> 0) = bit b (7 - k)"
proof -
  have "(128 :: int) = 2 ^ 7"
    by simp
  then have "drop_bit k (128 :: int) = 2 ^ (7 - k)"
    using assms by (simp only: drop_bit_exp_eq) simp
  moreover have "7 - k < (8 :: nat)"
    by arith
  ultimately show ?thesis
    by (simp add: and_exp_eq_0_iff_not_bit bit_uint_iff)
qed

lemma test_bit_in_range:
  fixes bitno :: "'w::len word"
  assumes "unat bitno div 8 < length pbytes"
  shows "test_bit pbytes bitno
           = Some (bit (pbytes ! (unat bitno div 8)) (7 - unat bitno mod 8))"
proof -
  have "unat bitno mod 8 < 8"
    by simp
  then show ?thesis
    using assms by (simp add: test_bit_def shift_3_unat and_7_unat mask_selects_bit)
qed

lemma unat_7_8:
  assumes "4 \<le> LENGTH('w::len)"
  shows "unat (7 :: 'w word) = 7 \<and> unat (8 :: 'w word) = 8"
proof -
  have "(2 :: nat) ^ 4 \<le> 2 ^ LENGTH('w)"
    using assms by (rule power_increasing) simp
  then have big: "(16 :: nat) \<le> 2 ^ LENGTH('w)"
    by simp
  have "unat (7 :: 'w word) = 7"
    using big by (simp add: unat_eq_nat_uint nat_take_bit_eq take_bit_nat_eq_self)
  moreover have "unat (8 :: 'w word) = 8"
    using big by (simp add: unat_eq_nat_uint nat_take_bit_eq take_bit_nat_eq_self)
  ultimately show ?thesis
    by simp
qed

text \<open>
  C3. Whenever byte number \<open>bit div 8\<close> lies inside the buffer, \<open>test_bit\<close>
  returns whether bit \<open>bit mod 8\<close> of that byte, counted from its most
  significant bit, is set (\<open>bit b n\<close> counts from the least significant bit,
  so this is bit \<open>7 - bit mod 8\<close>). In a two-byte buffer index 7 is the least
  significant bit of byte 0 and index 8 the most significant bit of byte 1;
  for the indices 7 and 8 to be values of \<^verbatim>\<open>ulong\<close> the type needs at least
  four bits.
\<close>

theorem test_bit_msb_first:
  fixes bitno :: "'w::len word"
  assumes "unat bitno div 8 < length pbytes"
  shows "test_bit pbytes bitno
           = Some (bit (pbytes ! (unat bitno div 8)) (7 - unat bitno mod 8)) \<and>
         (4 \<le> LENGTH('w) \<longrightarrow>
            test_bit [b0, b1] (7 :: 'w word) = Some (bit b0 0) \<and>
            test_bit [b0, b1] (8 :: 'w word) = Some (bit b1 7))"
proof (intro conjI impI)
  show "test_bit pbytes bitno
           = Some (bit (pbytes ! (unat bitno div 8)) (7 - unat bitno mod 8))"
    using assms by (rule test_bit_in_range)
next
  assume "4 \<le> LENGTH('w)"
  then have "unat (7 :: 'w word) = 7"
    by (simp only: unat_7_8)
  then show "test_bit [b0, b1] (7 :: 'w word) = Some (bit b0 0)"
    using test_bit_in_range [of "7 :: 'w word" "[b0, b1]"] by simp
next
  assume "4 \<le> LENGTH('w)"
  then have "unat (8 :: 'w word) = 8"
    by (simp only: unat_7_8)
  then show "test_bit [b0, b1] (8 :: 'w word) = Some (bit b1 7)"
    using test_bit_in_range [of "8 :: 'w word" "[b0, b1]"] by simp
qed

theorem test_bit_msb_first_witness:
  "unat (9 :: 32 word) div 8 < length [1, 64 :: byte] \<and>
   4 \<le> LENGTH(32) \<and>
   test_bit [1, 64] (9 :: 32 word) = Some True \<and>
   test_bit [1, 128] (7 :: 32 word) = Some True \<and>
   test_bit [1, 128] (8 :: 32 word) = Some True \<and>
   test_bit [1, 128] (6 :: 32 word) = Some False \<and>
   test_bit [1, 128] (9 :: 32 word) = Some False"
  using test_bit_msb_first [where 'w = 32, of 9 "[1, 64]" 1 128]
    test_bit_msb_first [where 'w = 32, of 6 "[1, 128]" 1 128]
    test_bit_msb_first [where 'w = 32, of 9 "[1, 128]" 1 128]
  by simp

section \<open>Reading and writing the file\<close>

lemma seek_offset_64:
  assumes "c \<noteq> Other Long32"
  shows "seek_offset c offset = sint offset"
proof (cases c)
  case MSC_VER
  then show ?thesis by simp
next
  case (Other w)
  with assms show ?thesis by (cases w) simp_all
qed

lemma nat_sint_offset:
  assumes "0 \<le> sint (offset :: ulonglong)"
  shows "nat (sint offset) = unat offset"
proof -
  from assms have "uint offset = sint offset"
    by (rule uint_eq_sint_nonneg)
  then show ?thesis
    by (simp only: unat_eq_nat_uint)
qed

lemma file_read_64:
  assumes "c \<noteq> Other Long32"
  shows "fst (file_read c this buffer offset) =
     (if sint offset < 0 \<or> int (seek_limit (m_pfile this)) < sint offset
      then Inl (out_of_range ''fseek failed'')
      else if min (length buffer) (length (contents (m_pfile this)) - unat offset)
                \<noteq> length buffer
      then Inl (out_of_range ''fread failed'')
      else Inr (length buffer))"
proof (cases "sint offset < 0 \<or> int (seek_limit (m_pfile this)) < sint offset")
  case True
  then show ?thesis
    by (simp add: file_read_def fseek_set_def seek_offset_64 [OF assms])
next
  case False
  then have "0 \<le> sint offset"
    by simp
  then have "nat (sint offset) = unat offset"
    by (rule nat_sint_offset)
  with False show ?thesis
    by (simp add: file_read_def fseek_set_def fread_def Let_def seek_offset_64 [OF assms])
qed

lemma offset_in_file_nonneg:
  assumes "unat offset \<le> length bytes" and "int (length bytes) < 2 ^ 63"
  shows "0 \<le> sint (offset :: ulonglong)"
proof -
  from assms(1) have "int (unat offset) \<le> int (length bytes)"
    by (simp only: of_nat_le_iff)
  then have "uint offset \<le> int (length bytes)"
    by (simp only: uint_nat)
  then have "uint offset < 2 ^ 63"
    using assms(2) by (rule le_less_trans)
  then show ?thesis
    by (simp only: sint_nonneg_iff_64)
qed

lemma offset_in_file_seekable:
  assumes "unat offset \<le> length bytes" and "length bytes \<le> limit"
    and "int limit < 2 ^ 63"
  shows "0 \<le> sint (offset :: ulonglong) \<and> \<not> int limit < sint offset"
proof -
  from assms(2) have "int (length bytes) \<le> int limit"
    by (simp only: of_nat_le_iff)
  then have small: "int (length bytes) < 2 ^ 63"
    using assms(3) by (rule le_less_trans)
  with assms(1) have nn: "0 \<le> sint offset"
    by (rule offset_in_file_nonneg)
  then have "uint offset = sint offset"
    by (rule uint_eq_sint_nonneg)
  then have "sint offset = int (unat offset)"
    by (simp only: uint_nat)
  moreover from assms(1,2) have "unat offset \<le> limit"
    by (rule le_trans)
  then have "int (unat offset) \<le> int limit"
    by (simp only: of_nat_le_iff)
  ultimately have "sint offset \<le> int limit"
    by (simp only:)
  then have "\<not> int limit < sint offset"
    by (simp only: not_less)
  with nn show ?thesis
    by (rule conjI)
qed

text \<open>
  On every build and for every buffer, \<^verbatim>\<open>out_of_range\<close> is the only exception
  of a read.
\<close>

lemma read_raises_only_out_of_range:
  assumes "fst (file_read c this buffer offset) = Inl e"
  shows "\<exists>msg. e = out_of_range msg"
  using assms
  by (auto simp add: file_read_def fseek_set_def fread_def Let_def split: if_splits)

text \<open>
  What a returning read has done, on every build: the seek went to the
  converted offset, and the buffer holds exactly \<^verbatim>\<open>buffer.size()\<close> bytes of
  the file from there.
\<close>

lemma file_read_success:
  assumes "fst (file_read c this buffer offset) = Inr n"
  shows "0 \<le> seek_offset c offset \<and> n = length buffer \<and>
         fst (snd (file_read c this buffer offset))
           = take n (drop (nat (seek_offset c offset)) (contents (m_pfile this))) \<and>
         length (fst (snd (file_read c this buffer offset))) = n"
proof -
  let ?off = "seek_offset c offset"
  let ?got = "take (length buffer) (drop (nat ?off) (contents (m_pfile this)))"
  from assms have seek: "\<not> (?off < 0 \<or> int (seek_limit (m_pfile this)) < ?off)"
    by (auto simp add: file_read_def fseek_set_def split: if_splits)
  with assms have full: "length ?got = length buffer" and n: "n = length buffer"
    by (auto simp add: file_read_def fseek_set_def fread_def Let_def split: if_splits)
  from seek have "fst (snd (file_read c this buffer offset)) = ?got @ drop (length ?got) buffer"
    by (simp add: file_read_def fseek_set_def fread_def Let_def split: if_splits)
  also have "\<dots> = ?got"
    by (simp only: full drop_all [OF order_refl] append_Nil2)
  finally have "fst (snd (file_read c this buffer offset)) = ?got" .
  with seek full n show ?thesis
    by simp
qed

text \<open>
  With a 64-bit seek offset a read inside the file delivers the bytes that
  start at the offset.
\<close>

lemma read_data_64:
  assumes "c \<noteq> Other Long32"
    and "unat offset + length buffer \<le> length (contents (m_pfile this))"
    and "length (contents (m_pfile this)) \<le> seek_limit (m_pfile this)"
    and "int (seek_limit (m_pfile this)) < 2 ^ 63"
  shows "fst (snd (file_read c this buffer offset))
           = take (length buffer) (drop (unat offset) (contents (m_pfile this)))"
proof -
  from assms(2) have "unat offset \<le> length (contents (m_pfile this))"
    by simp
  then have ok: "0 \<le> sint offset \<and> \<not> int (seek_limit (m_pfile this)) < sint offset"
    using assms(3,4) by (rule offset_in_file_seekable)
  then have "nat (sint offset) = unat offset"
    by (simp only: nat_sint_offset)
  with ok assms(2) show ?thesis
    by (simp add: file_read_def fseek_set_def fread_def Let_def seek_offset_64 [OF assms(1)])
qed

text \<open>
  Where the seek takes a 64-bit offset (\<^verbatim>\<open>_fseeki64\<close>, or \<^verbatim>\<open>fseek\<close> with a
  64-bit \<^verbatim>\<open>long\<close>), on a file within the file system's limit and for every
  non-empty buffer, the read keeps to the bound of its documentation: it
  returns \<^verbatim>\<open>buffer.size()\<close> when \<open>offset + buffer.size()\<close> does not exceed the
  file's size and throws \<^verbatim>\<open>out_of_range\<close> otherwise.
\<close>

lemma read_nonempty_bounds:
  assumes "c \<noteq> Other Long32" and "buffer \<noteq> []"
    and "length (contents (m_pfile this)) \<le> seek_limit (m_pfile this)"
    and "int (seek_limit (m_pfile this)) < 2 ^ 63"
  shows "fst (file_read c this buffer offset) =
     (if unat offset + length buffer \<le> length (contents (m_pfile this))
      then Inr (length buffer)
      else Inl (out_of_range
             (if sint offset < 0 \<or> int (seek_limit (m_pfile this)) < sint offset
              then ''fseek failed'' else ''fread failed'')))"
proof (cases "unat offset + length buffer \<le> length (contents (m_pfile this))")
  case True
  then have "unat offset \<le> length (contents (m_pfile this))"
    by simp
  then have "0 \<le> sint offset \<and> \<not> int (seek_limit (m_pfile this)) < sint offset"
    using assms(3,4) by (rule offset_in_file_seekable)
  then have "\<not> (sint offset < 0 \<or> int (seek_limit (m_pfile this)) < sint offset)"
    by simp
  with True show ?thesis
    by (simp add: file_read_64 [OF assms(1)])
next
  case False
  from assms(2) have "0 < length buffer"
    by simp
  with False have ne: "min (length buffer) (length (contents (m_pfile this)) - unat offset)
      \<noteq> length buffer"
    by arith
  show ?thesis
  proof (cases "sint offset < 0 \<or> int (seek_limit (m_pfile this)) < sint offset")
    case True
    with False show ?thesis
      by (simp only: file_read_64 [OF assms(1)] if_False if_True)
  next
    case noseek: False
    with False ne show ?thesis
      by (simp only: file_read_64 [OF assms(1)] if_False if_True simp_thms)
  qed
qed

text \<open>
  Beyond the file system's largest offset it is the seek that fails, for an
  empty buffer as for any other.
\<close>

lemma read_beyond_seek_limit:
  "fst (file_read (Other Long64)
          \<lparr>m_filename = ''a.pst'',
           m_pfile = \<lparr>contents = [1, 2, 3, 4], pos = 0, writable = False,
                      seek_limit = 17592186040320\<rparr>\<rparr> [0] 17592186040321)
     = Inl (out_of_range ''fseek failed'') \<and>
   fst (file_read (Other Long64)
          \<lparr>m_filename = ''a.pst'',
           m_pfile = \<lparr>contents = [1, 2, 3, 4], pos = 0, writable = False,
                      seek_limit = 17592186040320\<rparr>\<rparr> [] 17592186040321)
     = Inl (out_of_range ''fseek failed'') \<and>
   fst (file_read (Other Long64)
          \<lparr>m_filename = ''a.pst'',
           m_pfile = \<lparr>contents = [1, 2, 3, 4], pos = 0, writable = False,
                      seek_limit = 17592186040320\<rparr>\<rparr> [0] 17592186040320)
     = Inl (out_of_range ''fread failed'')"
  by (simp add: file_read_def fseek_set_def fread_def)

text \<open>
  On an object made by the constructor every write of a non-empty buffer
  throws, whatever the offset.
\<close>

lemma write_on_constructed_file_fails:
  assumes "file_ctor fs filename = Inr this" and "buffer \<noteq> []"
  shows "\<exists>msg. fst (file_write c this buffer offset) = Inl (out_of_range msg)"
  using assms
  by (auto simp add: file_ctor_def fopen_def file_write_def fseek_set_def fwrite_def
      split: option.splits)

text \<open>
  C1. The read returns where its documentation, like the claim, has it throw
  \<^verbatim>\<open>out_of_range\<close>. On a file of four bytes opened by the constructor:
  with an empty buffer and offset 5 (\<open>5 + 0 = 4 + 1\<close>) the seek succeeds,
  \<^verbatim>\<open>fread\<close> is asked for no bytes and the read returns 0; and where \<^verbatim>\<open>fseek\<close>
  takes a 32-bit \<^verbatim>\<open>long\<close>, the offset \<open>2^32\<close> is cut down to 0 and the read of
  one byte returns 1 with the first byte of the file.
\<close>

theorem read_past_end_returns:
  "file_ctor \<lparr>files = [''a.pst'' \<mapsto> [1, 2, 3, 4]], max_file_offset = 17592186040320\<rparr> ''a.pst''
     = Inr \<lparr>m_filename = ''a.pst'',
            m_pfile = \<lparr>contents = [1, 2, 3, 4], pos = 0, writable = False,
                       seek_limit = 17592186040320\<rparr>\<rparr> \<and>
   unat (5 :: ulonglong) + length ([] :: byte list) = length [1, 2, 3, 4 :: byte] + 1 \<and>
   fst (file_read (Other Long64)
          \<lparr>m_filename = ''a.pst'',
           m_pfile = \<lparr>contents = [1, 2, 3, 4], pos = 0, writable = False,
                      seek_limit = 17592186040320\<rparr>\<rparr> [] 5) = Inr 0 \<and>
   length [1, 2, 3, 4 :: byte] < unat (4294967296 :: ulonglong) + length [255 :: byte] \<and>
   file_read (Other Long32)
     \<lparr>m_filename = ''a.pst'',
      m_pfile = \<lparr>contents = [1, 2, 3, 4], pos = 0, writable = False,
                 seek_limit = 17592186040320\<rparr>\<rparr> [255] 4294967296
     = (Inr 1, [1],
        \<lparr>m_filename = ''a.pst'',
         m_pfile = \<lparr>contents = [1, 2, 3, 4], pos = 1, writable = False,
                    seek_limit = 17592186040320\<rparr>\<rparr>)"
  by (simp add: file_ctor_def fopen_def file_read_def fseek_set_def fread_def)

text \<open>
  C7. A read, whether it returns or throws, leaves the bytes of the file as
  they were; only the position of the stream moves.
\<close>

theorem read_preserves_contents:
  "contents (m_pfile (snd (snd (file_read c this buffer offset)))) = contents (m_pfile this)"
  by (simp add: file_read_def fseek_set_def fread_def Let_def)

text \<open>
  C9. A read that returns is a full read of exactly the requested number of
  bytes: the count it returns is \<^verbatim>\<open>buffer.size()\<close>, and the buffer then holds
  that many bytes of the file, the ones that start at the position the seek
  went to; where the seek takes a 64-bit offset that position is the offset.
\<close>

theorem read_success_is_full_read:
  assumes "fst (file_read c this buffer offset) = Inr n"
  shows "n = length buffer \<and>
         fst (snd (file_read c this buffer offset))
           = take n (drop (nat (seek_offset c offset)) (contents (m_pfile this))) \<and>
         length (fst (snd (file_read c this buffer offset))) = n \<and>
         (c \<noteq> Other Long32 \<longrightarrow>
            fst (snd (file_read c this buffer offset))
              = take n (drop (unat offset) (contents (m_pfile this))))"
proof -
  note full = file_read_success [OF assms]
  have "c \<noteq> Other Long32 \<longrightarrow>
      fst (snd (file_read c this buffer offset))
        = take n (drop (unat offset) (contents (m_pfile this)))"
  proof
    assume wide: "c \<noteq> Other Long32"
    with full have "0 \<le> sint offset"
      by (simp add: seek_offset_64)
    then have "nat (sint offset) = unat offset"
      by (rule nat_sint_offset)
    with full wide show "fst (snd (file_read c this buffer offset))
        = take n (drop (unat offset) (contents (m_pfile this)))"
      by (simp add: seek_offset_64)
  qed
  with full show ?thesis
    by blast
qed

theorem read_success_is_full_read_witness:
  "fst (file_read MSC_VER
          \<lparr>m_filename = ''a.pst'',
           m_pfile = \<lparr>contents = [1, 2, 3, 4], pos = 0, writable = False,
                      seek_limit = 17592186040320\<rparr>\<rparr> [0, 0, 0] 1)
     = Inr 3 \<and>
   MSC_VER \<noteq> Other Long32 \<and>
   (3 :: nat) = length [0, 0, 0 :: byte] \<and>
   fst (snd (file_read MSC_VER
          \<lparr>m_filename = ''a.pst'',
           m_pfile = \<lparr>contents = [1, 2, 3, 4], pos = 0, writable = False,
                      seek_limit = 17592186040320\<rparr>\<rparr> [0, 0, 0] 1))
     = [2, 3, 4] \<and>
   take 3 (drop (unat (1 :: ulonglong)) [1, 2, 3, 4 :: byte]) = [2, 3, 4]"
  using read_success_is_full_read [of MSC_VER
      "\<lparr>m_filename = ''a.pst'',
        m_pfile = \<lparr>contents = [1, 2, 3, 4], pos = 0, writable = False,
                   seek_limit = 17592186040320\<rparr>\<rparr>" "[0, 0, 0]" 1 3]
  by (simp add: file_read_def fseek_set_def fread_def)

text \<open>
  C6. Where \<^verbatim>\<open>fseek\<close> takes a 32-bit \<^verbatim>\<open>long\<close>, the offset \<open>2^32\<close> is cut
  down to 0: on a file of \<open>2^32 + 1\<close> bytes whose last byte is 1 and whose
  other bytes are 0, the read of one byte at offset \<open>2^32\<close> returns 1 with the
  byte 0 of position 0 in the buffer, while the byte at position \<open>2^32\<close> is 1.
\<close>

theorem read_long32_truncates_offset:
  "file_read (Other Long32)
     \<lparr>m_filename = ''big.pst'',
      m_pfile = \<lparr>contents = replicate 4294967296 0 @ [1], pos = 0, writable = False,
                 seek_limit = 17592186040320\<rparr>\<rparr>
     [255] 4294967296
   = (Inr 1, [0],
      \<lparr>m_filename = ''big.pst'',
       m_pfile = \<lparr>contents = replicate 4294967296 0 @ [1], pos = 1, writable = False,
                  seek_limit = 17592186040320\<rparr>\<rparr>) \<and>
   take 1 (drop (unat (4294967296 :: ulonglong)) (replicate 4294967296 0 @ [1 :: byte])) = [1]"
  by (simp add: file_read_def fseek_set_def fread_def Let_def)

text \<open>
  C4. The constructor opens the stream with mode \<^verbatim>\<open>"rb"\<close>, so \<^verbatim>\<open>fwrite\<close>
  writes nothing: on a file of four bytes the write of one byte at offset 0,
  well inside the file, throws \<^verbatim>\<open>out_of_range\<close> and leaves the file as it was.
\<close>

theorem write_in_range_fails:
  "file_ctor \<lparr>files = [''a.pst'' \<mapsto> [1, 2, 3, 4]], max_file_offset = 17592186040320\<rparr> ''a.pst''
     = Inr \<lparr>m_filename = ''a.pst'',
            m_pfile = \<lparr>contents = [1, 2, 3, 4], pos = 0, writable = False,
                       seek_limit = 17592186040320\<rparr>\<rparr> \<and>
   file_write MSC_VER
     \<lparr>m_filename = ''a.pst'',
      m_pfile = \<lparr>contents = [1, 2, 3, 4], pos = 0, writable = False,
                 seek_limit = 17592186040320\<rparr>\<rparr> [65] 0
     = (Inl (out_of_range ''fwrite failed''),
        \<lparr>m_filename = ''a.pst'',
         m_pfile = \<lparr>contents = [1, 2, 3, 4], pos = 0, writable = False,
                    seek_limit = 17592186040320\<rparr>\<rparr>)"
  by (simp add: file_ctor_def fopen_def file_write_def fseek_set_def fwrite_def)

end
